theory Spec2Isabelle
  imports Complex_Main
begin

section \<open>Data model\<close>

text \<open>
  A JavaScript \<open>Date\<close> is its time value: milliseconds since the epoch, an integer.
  Local time is UTC, and the readings of \<open>new Date()\<close> within one request are one
  instant, the \<open>clock\<close> of the request. A JavaScript \<open>number\<close> holding money
  (\<open>dailyRate\<close>, \<open>totalAmount\<close>, \<open>amount\<close>) is a real number; a quotient of two time
  values is a real number as well, so \<open>Math.ceil\<close> is \<open>ceiling\<close>. A MongoDB \<open>ObjectId\<close>
  and a user id are natural numbers, and a role is a value of \<open>UserRole\<close>. A stored
  reference (\<open>customerId\<close>, \<open>equipmentId\<close>, \<open>bookingId\<close>) is the id it holds; what
  \<open>populate\<close> makes of it in a document that is read is modelled where the services
  read it. The websocket emitters and the logger do not touch the collections and are
  left out.

  The records have the fields the operations read or write: \<open>b_id\<close>, \<open>e_id\<close> and
  \<open>p_id\<close> are the \<open>_id\<close> of a booking, of a piece of equipment and of a payment,
  \<open>b_notes\<close> is \<open>notes\<close>, and \<open>e_status\<close> and \<open>p_status\<close> are the \<open>status\<close> of an
  equipment and of a payment.
\<close>

type_synonym date = int
type_synonym objectId = nat

datatype BookingStatus = PENDING | CONFIRMED | ACTIVE | COMPLETED | CANCELLED

datatype EquipmentStatus = AVAILABLE | MAINTENANCE | RETIRED

datatype PaymentStatus = PAY_PENDING | SUCCEEDED | FAILED | REFUNDED

datatype UserRole = CUSTOMER | ADMIN | LOGISTICS

datatype error =
    NotFoundError string
  | ValidationError string
  | ConflictError string
  | AuthorizationError string
  | DatabaseError string
  | ExternalServiceError string

record IBooking =
  b_id :: objectId
  customerId :: objectId
  equipmentId :: objectId
  startDate :: date
  endDate :: date
  deliveryAddress :: string
  status :: BookingStatus
  totalAmount :: real
  b_notes :: "string option"
  createdAt :: date
  updatedAt :: date

record IEquipment =
  e_id :: objectId
  dailyRate :: real
  e_status :: EquipmentStatus

record IPayment =
  p_id :: objectId
  bookingId :: objectId
  stripePaymentIntentId :: string
  amount :: real
  p_status :: PaymentStatus
  refundAmount :: "real option"
  refundDate :: "date option"

text \<open>The three collections, and the next \<open>ObjectId\<close> the driver hands out.\<close>

record db =
  bookings :: "IBooking list"
  equipments :: "IEquipment list"
  payments :: "IPayment list"
  nextId :: objectId

fun status_string :: "BookingStatus \<Rightarrow> string" where
  "status_string PENDING = ''pending''"
| "status_string CONFIRMED = ''confirmed''"
| "status_string ACTIVE = ''active''"
| "status_string COMPLETED = ''completed''"
| "status_string CANCELLED = ''cancelled''"

fun equipment_status_string :: "EquipmentStatus \<Rightarrow> string" where
  "equipment_status_string AVAILABLE = ''available''"
| "equipment_status_string MAINTENANCE = ''maintenance''"
| "equipment_status_string RETIRED = ''retired''"

section \<open>Dates: the time-value arithmetic of ECMAScript, in UTC\<close>

definition msPerDay :: int where
  "msPerDay = 1000 * 60 * 60 * 24"

definition Day :: "date \<Rightarrow> int" where
  "Day t = t div msPerDay"

definition TimeWithinDay :: "date \<Rightarrow> int" where
  "TimeWithinDay t = t mod msPerDay"

definition DaysInYear :: "int \<Rightarrow> int" where
  "DaysInYear y =
     (if y mod 4 \<noteq> 0 then 365
      else if y mod 100 \<noteq> 0 then 366
      else if y mod 400 \<noteq> 0 then 365
      else 366)"

definition DayFromYear :: "int \<Rightarrow> int" where
  "DayFromYear y =
     365 * (y - 1970) + (y - 1969) div 4 - (y - 1901) div 100 + (y - 1601) div 400"

text \<open>
  \<open>YearFromTime t\<close> is the largest year whose first day is not after \<open>t\<close>. The search
  starts from the mean year length of the 400-year cycle and moves by at most one year.
\<close>

definition YearFromDay :: "int \<Rightarrow> int" where
  "YearFromDay d =
     (let y = 1970 + (400 * d) div 146097
      in if DayFromYear (y + 1) \<le> d then y + 1
         else if d < DayFromYear y then y - 1
         else y)"

definition YearFromTime :: "date \<Rightarrow> int" where
  "YearFromTime t = YearFromDay (Day t)"

definition InLeapYear :: "int \<Rightarrow> int" where
  "InLeapYear y = (if DaysInYear y = 366 then 1 else 0)"

definition DayWithinYear :: "date \<Rightarrow> int" where
  "DayWithinYear t = Day t - DayFromYear (YearFromTime t)"

text \<open>The day of the year on which month \<open>m\<close> (0 is January) begins.\<close>

definition MonthStart :: "int \<Rightarrow> int \<Rightarrow> int" where
  "MonthStart leap m =
     (if m = 0 then 0
      else if m = 1 then 31
      else if m = 2 then 59 + leap
      else if m = 3 then 90 + leap
      else if m = 4 then 120 + leap
      else if m = 5 then 151 + leap
      else if m = 6 then 181 + leap
      else if m = 7 then 212 + leap
      else if m = 8 then 243 + leap
      else if m = 9 then 273 + leap
      else if m = 10 then 304 + leap
      else 334 + leap)"

definition MonthFromTime :: "date \<Rightarrow> int" where
  "MonthFromTime t =
     (let d = DayWithinYear t; leap = InLeapYear (YearFromTime t)
      in if d < 31 then 0
         else if d < 59 + leap then 1
         else if d < 90 + leap then 2
         else if d < 120 + leap then 3
         else if d < 151 + leap then 4
         else if d < 181 + leap then 5
         else if d < 212 + leap then 6
         else if d < 243 + leap then 7
         else if d < 273 + leap then 8
         else if d < 304 + leap then 9
         else if d < 334 + leap then 10
         else 11)"

definition DateFromTime :: "date \<Rightarrow> int" where
  "DateFromTime t =
     DayWithinYear t - MonthStart (InLeapYear (YearFromTime t)) (MonthFromTime t) + 1"

definition MakeDay :: "int \<Rightarrow> int \<Rightarrow> int \<Rightarrow> int" where
  "MakeDay year month dt =
     (let ym = year + month div 12; mn = month mod 12
      in DayFromYear ym + MonthStart (InLeapYear ym) mn + dt - 1)"

definition MakeDate :: "int \<Rightarrow> int \<Rightarrow> date" where
  "MakeDate day time = day * msPerDay + time"

text \<open>\<open>d.setHours(0, 0, 0, 0)\<close>: the start of the day of \<open>d\<close>.\<close>

definition setHours0 :: "date \<Rightarrow> date" where
  "setHours0 t = MakeDate (Day t) 0"

definition getFullYear :: "date \<Rightarrow> int" where
  "getFullYear t = YearFromTime t"

text \<open>
  \<open>d.setFullYear(y)\<close> keeps the month, the day of the month and the time of day;
  February 29 in a year that has none becomes March 1.
\<close>

definition setFullYear :: "date \<Rightarrow> int \<Rightarrow> date" where
  "setFullYear t y = MakeDate (MakeDay y (MonthFromTime t) (DateFromTime t)) (TimeWithinDay t)"

text \<open>
  The number of days from a date to the same date of the next year, as \<open>setFullYear\<close>
  counts them: the length of the current year for a date in January or February, the
  length of the next year otherwise. It is 366 exactly when a February 29 lies between
  the two dates.
\<close>

definition daysToNextYear :: "date \<Rightarrow> int" where
  "daysToNextYear t =
     (if MonthFromTime t \<le> 1 then DaysInYear (getFullYear t) else DaysInYear (getFullYear t + 1))"

section \<open>BookingRepository and EquipmentRepository\<close>

text \<open>
  \<open>findById\<close> of \<open>BookingRepository\<close> populates \<open>customerId\<close> and \<open>equipmentId\<close>, and
  \<open>findById\<close> of \<open>PaymentRepository\<close> populates \<open>bookingId\<close>: in the document returned,
  the field holds the referenced document, or \<open>null\<close> when there is none. \<open>String(...)\<close>
  of such a field is the inspect text of that document, or \<open>null\<close>, and not the text
  of an id. An \<open>id_text\<close> is the text of an id (\<open>IdText\<close>: the \<open>userId\<close> of a request,
  \<open>String\<close> of an \<open>ObjectId\<close>) or the text of the populated field that referenced an
  id (\<open>PopulatedText\<close>). \<open>new ObjectId(...)\<close> and the cast of the \<open>_id\<close> in a query
  accept the text of an id and throw on any other text.
\<close>

datatype id_text = IdText objectId | PopulatedText objectId

definition String_populated :: "objectId \<Rightarrow> id_text" where
  "String_populated ref = PopulatedText ref"

definition ObjectId_of :: "id_text \<Rightarrow> objectId option" where
  "ObjectId_of x = (case x of IdText i \<Rightarrow> Some i | PopulatedText ref \<Rightarrow> None)"

definition equipment_findById :: "db \<Rightarrow> objectId \<Rightarrow> IEquipment option" where
  "equipment_findById s i = find (\<lambda>q. e_id q = i) (equipments s)"

definition booking_findById :: "db \<Rightarrow> objectId \<Rightarrow> IBooking option" where
  "booking_findById s i = find (\<lambda>b. b_id b = i) (bookings s)"

text \<open>The \<open>$or\<close> of the query of \<open>checkConflict\<close>, on one stored booking.\<close>

definition conflict_clauses :: "date \<Rightarrow> date \<Rightarrow> IBooking \<Rightarrow> bool" where
  "conflict_clauses s e b \<longleftrightarrow>
     (startDate b \<le> s \<and> endDate b \<ge> s) \<or>
     (startDate b \<le> e \<and> endDate b \<ge> e) \<or>
     (startDate b \<ge> s \<and> endDate b \<le> e)"

definition conflict_query :: "objectId \<Rightarrow> date \<Rightarrow> date \<Rightarrow> objectId option \<Rightarrow> IBooking \<Rightarrow> bool" where
  "conflict_query eq s e excludeBookingId b \<longleftrightarrow>
     equipmentId b = eq \<and>
     status b \<in> set [PENDING, CONFIRMED, ACTIVE] \<and>
     conflict_clauses s e b \<and>
     (case excludeBookingId of None \<Rightarrow> True | Some x \<Rightarrow> b_id b \<noteq> x)"

definition countDocuments :: "('a \<Rightarrow> bool) \<Rightarrow> 'a list \<Rightarrow> nat" where
  "countDocuments q xs = length (filter q xs)"

definition checkConflict :: "db \<Rightarrow> objectId \<Rightarrow> date \<Rightarrow> date \<Rightarrow> objectId option \<Rightarrow> bool" where
  "checkConflict s eq sd ed excludeBookingId \<longleftrightarrow>
     countDocuments (conflict_query eq sd ed excludeBookingId) (bookings s) > 0"

text \<open>
  \<open>checkConflict\<close> above is the query for an equipment id that \<open>new ObjectId\<close> accepts,
  as in \<open>createBooking\<close>. \<open>checkConflict_String\<close> is the call with the text
  \<open>String(booking.equipmentId)\<close>: the constructor runs inside the \<open>try\<close> block, and
  what it throws becomes the \<open>DatabaseError\<close> of the \<open>catch\<close>.
\<close>

definition checkConflict_String ::
  "db \<Rightarrow> id_text \<Rightarrow> date \<Rightarrow> date \<Rightarrow> objectId option \<Rightarrow> error + bool" where
  "checkConflict_String s x sd ed excludeBookingId =
     (case ObjectId_of x of
        None \<Rightarrow> Inl (DatabaseError ''Failed to check booking conflict'')
      | Some eq \<Rightarrow> Inr (checkConflict s eq sd ed excludeBookingId))"

section \<open>BookingService: pricing and window validation\<close>

definition calculateTotalAmount :: "db \<Rightarrow> objectId \<Rightarrow> date \<Rightarrow> date \<Rightarrow> error + real" where
  "calculateTotalAmount s eq sd ed =
     (case equipment_findById s eq of
        None \<Rightarrow> Inl (NotFoundError ''Equipment not found'')
      | Some equipment \<Rightarrow>
          (let days = \<lceil>real_of_int (ed - sd) / (1000 * 60 * 60 * 24)\<rceil>
           in if days < 1 then Inl (ValidationError ''Booking must be at least 1 day'')
              else Inr (dailyRate equipment * real_of_int days)))"

text \<open>
  The same with the text \<open>String(booking.equipmentId)\<close>: \<open>equipmentRepository.findById\<close>
  throws its \<open>DatabaseError\<close> when the text is not that of an id.
\<close>

definition calculateTotalAmount_String :: "db \<Rightarrow> id_text \<Rightarrow> date \<Rightarrow> date \<Rightarrow> error + real" where
  "calculateTotalAmount_String s x sd ed =
     (case ObjectId_of x of
        None \<Rightarrow> Inl (DatabaseError ''Failed to find equipment'')
      | Some eq \<Rightarrow> calculateTotalAmount s eq sd ed)"

definition validateBookingDates :: "date \<Rightarrow> date \<Rightarrow> date \<Rightarrow> error + unit" where
  "validateBookingDates clock sd ed =
     (let now = setHours0 clock;
          start = setHours0 sd;
          end' = setHours0 ed
      in if start < now then Inl (ValidationError ''Start date cannot be in the past'')
         else if end' \<le> start then Inl (ValidationError ''End date must be after start date'')
         else (let maxDate = setFullYear clock (getFullYear clock + 1)
               in if start > maxDate
                  then Inl (ValidationError ''Start date cannot be more than 1 year in the future'')
                  else Inr ()))"

section \<open>BookingRepository: writes\<close>

text \<open>
  The request data of the service. The fields carry a prefix because a field name
  belongs to one record: \<open>c_startDate\<close> is \<open>CreateBookingData.startDate\<close>,
  \<open>u_status\<close> is \<open>UpdateBookingData.status\<close>; an optional field is an \<open>option\<close>.
\<close>

record CreateBookingData =
  c_customerId :: objectId
  c_equipmentId :: objectId
  c_startDate :: date
  c_endDate :: date
  c_deliveryAddress :: string
  c_notes :: "string option"

record UpdateBookingData =
  u_startDate :: "date option"
  u_endDate :: "date option"
  u_deliveryAddress :: "string option"
  u_notes :: "string option"
  u_status :: "BookingStatus option"
  u_totalAmount :: "real option"

text \<open>
  The schema option \<open>trim: true\<close> of \<open>notes\<close>. A string is a text of 8-bit characters;
  \<open>is_space\<close> holds of the white space and the line terminators among them, the
  no-break space included.
\<close>

definition is_space :: "char \<Rightarrow> bool" where
  "is_space c \<longleftrightarrow>
     c \<in> set [CHR '' '', CHR 0x09, CHR 0x0A, CHR 0x0B, CHR 0x0C, CHR 0x0D, CHR 0xA0]"

definition trim :: "string \<Rightarrow> string" where
  "trim x = rev (dropWhile is_space (rev (dropWhile is_space x)))"

text \<open>
  The validators of \<open>bookingSchema\<close>. The one of \<open>startDate\<close> is
  \<open>value >= new Date()\<close>; the one of \<open>endDate\<close> is \<open>value > this.startDate\<close>, where
  \<open>this_startDate\<close> is \<open>None\<close> when \<open>this\<close> has no \<open>startDate\<close>: a comparison with
  \<open>undefined\<close> is false. \<open>save\<close> runs them on a new document, with the document as
  \<open>this\<close>, together with the required \<open>deliveryAddress\<close> and the minimum 0 of
  \<open>totalAmount\<close>.
\<close>

definition startDate_validator :: "date \<Rightarrow> date \<Rightarrow> bool" where
  "startDate_validator clock v \<longleftrightarrow> v \<ge> clock"

definition endDate_validator :: "date option \<Rightarrow> date \<Rightarrow> bool" where
  "endDate_validator this_startDate v \<longleftrightarrow>
     (case this_startDate of None \<Rightarrow> False | Some sd \<Rightarrow> v > sd)"

definition document_valid :: "date \<Rightarrow> IBooking \<Rightarrow> bool" where
  "document_valid clock b \<longleftrightarrow>
     startDate_validator clock (startDate b) \<and>
     endDate_validator (Some (startDate b)) (endDate b) \<and>
     deliveryAddress b \<noteq> [] \<and> totalAmount b \<ge> 0"

definition bookingRepository_create ::
  "date \<Rightarrow> db \<Rightarrow> CreateBookingData \<Rightarrow> real \<Rightarrow> BookingStatus \<Rightarrow> (error + IBooking) \<times> db" where
  "bookingRepository_create clock s data tot st =
     (let booking = \<lparr> b_id = nextId s,
                       customerId = c_customerId data,
                       equipmentId = c_equipmentId data,
                       startDate = c_startDate data,
                       endDate = c_endDate data,
                       deliveryAddress = c_deliveryAddress data,
                       status = st,
                       totalAmount = tot,
                       b_notes = map_option trim (c_notes data),
                       createdAt = clock,
                       updatedAt = clock \<rparr>
      in if document_valid clock booking
         then (Inr booking, s\<lparr>bookings := bookings s @ [booking], nextId := Suc (nextId s)\<rparr>)
         else (Inl (DatabaseError ''Failed to create booking''), s))"

text \<open>\<open>findByIdAndUpdate\<close> changes the first document with the id.\<close>

fun update_first :: "('a \<Rightarrow> bool) \<Rightarrow> ('a \<Rightarrow> 'a) \<Rightarrow> 'a list \<Rightarrow> 'a list" where
  "update_first q f [] = []"
| "update_first q f (x # xs) = (if q x then f x # xs else x # update_first q f xs)"

fun delete_first :: "('a \<Rightarrow> bool) \<Rightarrow> 'a list \<Rightarrow> 'a list" where
  "delete_first q [] = []"
| "delete_first q (x # xs) = (if q x then xs else x # delete_first q xs)"

definition bookingRepository_updateStatus ::
  "date \<Rightarrow> db \<Rightarrow> objectId \<Rightarrow> BookingStatus \<Rightarrow> (error + IBooking) \<times> db" where
  "bookingRepository_updateStatus clock s i st =
     (case booking_findById s i of
        None \<Rightarrow> (Inl (NotFoundError ''Booking not found''), s)
      | Some b \<Rightarrow>
          (let b' = b\<lparr>status := st, updatedAt := clock\<rparr>
           in (Inr b', s\<lparr>bookings := update_first (\<lambda>x. b_id x = i) (\<lambda>_. b') (bookings s)\<rparr>)))"

text \<open>
  \<open>updateStatus\<close> and \<open>findById\<close> called with a text: the cast of a text that is not
  that of an id throws inside the \<open>try\<close> block, and the \<open>catch\<close> throws the
  \<open>DatabaseError\<close> of the method.
\<close>

definition bookingRepository_updateStatus_String ::
  "date \<Rightarrow> db \<Rightarrow> id_text \<Rightarrow> BookingStatus \<Rightarrow> (error + IBooking) \<times> db" where
  "bookingRepository_updateStatus_String clock s x st =
     (case ObjectId_of x of
        None \<Rightarrow> (Inl (DatabaseError ''Failed to update booking status''), s)
      | Some i \<Rightarrow> bookingRepository_updateStatus clock s i st)"

definition booking_findById_String :: "db \<Rightarrow> id_text \<Rightarrow> error + IBooking option" where
  "booking_findById_String s x =
     (case ObjectId_of x of
        None \<Rightarrow> Inl (DatabaseError ''Failed to find booking'')
      | Some i \<Rightarrow> Inr (booking_findById s i))"

text \<open>
  \<open>updateById\<close> passes \<open>runValidators: true\<close>, so the validators of the paths in
  \<open>$set\<close> run before the write. An update validator runs with \<open>this\<close> bound to the
  query, which has no \<open>startDate\<close>.
\<close>

definition update_valid :: "date \<Rightarrow> UpdateBookingData \<Rightarrow> bool" where
  "update_valid clock data \<longleftrightarrow>
     (case u_startDate data of None \<Rightarrow> True | Some v \<Rightarrow> startDate_validator clock v) \<and>
     (case u_endDate data of None \<Rightarrow> True | Some v \<Rightarrow> endDate_validator None v) \<and>
     (case u_deliveryAddress data of None \<Rightarrow> True | Some a \<Rightarrow> a \<noteq> []) \<and>
     (case u_totalAmount data of None \<Rightarrow> True | Some a \<Rightarrow> a \<ge> 0)"

definition set_fields :: "date \<Rightarrow> UpdateBookingData \<Rightarrow> IBooking \<Rightarrow> IBooking" where
  "set_fields clock data b =
     b\<lparr> startDate := (case u_startDate data of None \<Rightarrow> startDate b | Some v \<Rightarrow> v),
        endDate := (case u_endDate data of None \<Rightarrow> endDate b | Some v \<Rightarrow> v),
        deliveryAddress := (case u_deliveryAddress data of None \<Rightarrow> deliveryAddress b | Some v \<Rightarrow> v),
        b_notes := (case u_notes data of None \<Rightarrow> b_notes b | Some v \<Rightarrow> Some (trim v)),
        status := (case u_status data of None \<Rightarrow> status b | Some v \<Rightarrow> v),
        totalAmount := (case u_totalAmount data of None \<Rightarrow> totalAmount b | Some v \<Rightarrow> v),
        updatedAt := clock \<rparr>"

definition bookingRepository_updateById ::
  "date \<Rightarrow> db \<Rightarrow> objectId \<Rightarrow> UpdateBookingData \<Rightarrow> (error + IBooking) \<times> db" where
  "bookingRepository_updateById clock s i data =
     (if \<not> update_valid clock data then (Inl (DatabaseError ''Failed to update booking''), s)
      else (case booking_findById s i of
              None \<Rightarrow> (Inl (NotFoundError ''Booking not found''), s)
            | Some b \<Rightarrow>
                (let b' = set_fields clock data b
                 in (Inr b', s\<lparr>bookings := update_first (\<lambda>x. b_id x = i) (\<lambda>_. b') (bookings s)\<rparr>))))"

definition bookingRepository_deleteById :: "db \<Rightarrow> objectId \<Rightarrow> (error + unit) \<times> db" where
  "bookingRepository_deleteById s i =
     (case booking_findById s i of
        None \<Rightarrow> (Inl (NotFoundError ''Booking not found''), s)
      | Some b \<Rightarrow> (Inr (), s\<lparr>bookings := delete_first (\<lambda>x. b_id x = i) (bookings s)\<rparr>))"

section \<open>BookingService: operations\<close>

text \<open>
  Each operation takes the clock reading of the request and the collections, and returns
  what the promise settles to (\<open>Inl\<close> the error thrown) with the collections afterwards.
  Where a service reads a booking with \<open>findById\<close>, its \<open>String(booking.customerId)\<close>
  and \<open>String(booking.equipmentId)\<close> are \<open>String_populated\<close> of the stored reference,
  and the test \<open>customerId !== userId\<close> compares that text with the text of the id of
  the caller.

  \<open>createBooking\<close> awaits four reads and then one write. \<open>createBooking_checks\<close> is
  everything up to the computed amount; \<open>createBooking\<close> runs it and then awaits
  \<open>bookingRepository.create\<close>.
\<close>

definition createBooking_checks :: "date \<Rightarrow> db \<Rightarrow> CreateBookingData \<Rightarrow> error + real" where
  "createBooking_checks clock s data =
     (case validateBookingDates clock (c_startDate data) (c_endDate data) of
        Inl e \<Rightarrow> Inl e
      | Inr _ \<Rightarrow>
          (case equipment_findById s (c_equipmentId data) of
             None \<Rightarrow> Inl (NotFoundError ''Equipment not found'')
           | Some equipment \<Rightarrow>
               if e_status equipment \<noteq> AVAILABLE
               then Inl (ValidationError
                      (''Equipment is currently '' @ equipment_status_string (e_status equipment)))
               else if checkConflict s (c_equipmentId data) (c_startDate data) (c_endDate data) None
               then Inl (ConflictError ''Equipment is already booked for the selected dates'')
               else calculateTotalAmount s (c_equipmentId data) (c_startDate data) (c_endDate data)))"

definition createBooking :: "date \<Rightarrow> db \<Rightarrow> CreateBookingData \<Rightarrow> (error + IBooking) \<times> db" where
  "createBooking clock s data =
     (case createBooking_checks clock s data of
        Inl e \<Rightarrow> (Inl e, s)
      | Inr tot \<Rightarrow> bookingRepository_create clock s data tot PENDING)"

text \<open>
  Node runs an \<open>async\<close> function up to an \<open>await\<close> and may then run another request.
  \<open>createBooking_interleaved\<close> is the schedule of two requests in which both have
  finished their reads before either reaches \<open>bookingRepository.create\<close>.
\<close>

definition createBooking_interleaved ::
  "date \<Rightarrow> db \<Rightarrow> CreateBookingData \<Rightarrow> CreateBookingData \<Rightarrow>
     (error + IBooking) \<times> (error + IBooking) \<times> db" where
  "createBooking_interleaved clock s data1 data2 =
     (let checks1 = createBooking_checks clock s data1;
          checks2 = createBooking_checks clock s data2;
          (r1, s1) = (case checks1 of
                        Inl e \<Rightarrow> (Inl e, s)
                      | Inr tot \<Rightarrow> bookingRepository_create clock s data1 tot PENDING);
          (r2, s2) = (case checks2 of
                        Inl e \<Rightarrow> (Inl e, s1)
                      | Inr tot \<Rightarrow> bookingRepository_create clock s1 data2 tot PENDING)
      in (r1, r2, s2))"

definition updateBooking ::
  "date \<Rightarrow> db \<Rightarrow> objectId \<Rightarrow> UpdateBookingData \<Rightarrow> objectId \<Rightarrow> UserRole \<Rightarrow> (error + IBooking) \<times> db" where
  "updateBooking clock s i data userId userRole =
     (case booking_findById s i of
        None \<Rightarrow> (Inl (NotFoundError ''Booking not found''), s)
      | Some booking \<Rightarrow>
          if userRole \<noteq> ADMIN \<and> userRole \<noteq> LOGISTICS \<and>
             String_populated (customerId booking) \<noteq> IdText userId
          then (Inl (AuthorizationError ''You can only update your own bookings''), s)
          else if status booking = COMPLETED \<or> status booking = CANCELLED
          then (Inl (ValidationError (''Cannot update '' @ status_string (status booking) @
                       '' booking. Contact support for assistance.'')), s)
          else
            (let sd = (case u_startDate data of Some d \<Rightarrow> d | None \<Rightarrow> startDate booking);
                 ed = (case u_endDate data of Some d \<Rightarrow> d | None \<Rightarrow> endDate booking)
             in if u_startDate data \<noteq> None \<or> u_endDate data \<noteq> None
                then (case validateBookingDates clock sd ed of
                        Inl e \<Rightarrow> (Inl e, s)
                      | Inr _ \<Rightarrow>
                          (case checkConflict_String s (String_populated (equipmentId booking))
                                  sd ed (Some i) of
                             Inl e \<Rightarrow> (Inl e, s)
                           | Inr hasConflict \<Rightarrow>
                               if hasConflict
                               then (Inl (ConflictError
                                       ''Equipment is already booked for the selected dates''), s)
                               else (case calculateTotalAmount_String s
                                            (String_populated (equipmentId booking)) sd ed of
                                       Inl e \<Rightarrow> (Inl e, s)
                                     | Inr tot \<Rightarrow>
                                         bookingRepository_updateById clock s i
                                           (data\<lparr>u_totalAmount := Some tot\<rparr>))))
                else bookingRepository_updateById clock s i data))"

definition cancelBooking ::
  "date \<Rightarrow> db \<Rightarrow> objectId \<Rightarrow> objectId \<Rightarrow> UserRole \<Rightarrow> (error + IBooking) \<times> db" where
  "cancelBooking clock s i userId userRole =
     (case booking_findById s i of
        None \<Rightarrow> (Inl (NotFoundError ''Booking not found''), s)
      | Some booking \<Rightarrow>
          if userRole \<noteq> ADMIN \<and> String_populated (customerId booking) \<noteq> IdText userId
          then (Inl (AuthorizationError ''You can only cancel your own bookings''), s)
          else if status booking = COMPLETED
          then (Inl (ValidationError ''Cannot cancel completed booking''), s)
          else if status booking = CANCELLED
          then (Inl (ValidationError ''Booking is already cancelled''), s)
          else
            (let hoursUntilStart = real_of_int (startDate booking - clock) / (1000 * 60 * 60)
             in if hoursUntilStart < 24 \<and> userRole \<noteq> ADMIN
                then (Inl (ValidationError
                        ''Bookings must be cancelled at least 24 hours before the start date''), s)
                else bookingRepository_updateStatus clock s i CANCELLED))"

definition confirmBooking :: "date \<Rightarrow> db \<Rightarrow> objectId \<Rightarrow> (error + IBooking) \<times> db" where
  "confirmBooking clock s i =
     (case booking_findById s i of
        None \<Rightarrow> (Inl (NotFoundError ''Booking not found''), s)
      | Some booking \<Rightarrow>
          if status booking \<noteq> PENDING
          then (Inl (ValidationError
                  (''Cannot confirm booking with status: '' @ status_string (status booking))), s)
          else bookingRepository_updateStatus clock s i CONFIRMED)"

definition startBooking :: "date \<Rightarrow> db \<Rightarrow> objectId \<Rightarrow> (error + IBooking) \<times> db" where
  "startBooking clock s i =
     (case booking_findById s i of
        None \<Rightarrow> (Inl (NotFoundError ''Booking not found''), s)
      | Some booking \<Rightarrow>
          if status booking \<noteq> CONFIRMED
          then (Inl (ValidationError ''Only confirmed bookings can be started''), s)
          else if clock < startDate booking
          then (Inl (ValidationError ''Cannot start booking before the start date''), s)
          else bookingRepository_updateStatus clock s i ACTIVE)"

definition completeBooking :: "date \<Rightarrow> db \<Rightarrow> objectId \<Rightarrow> (error + IBooking) \<times> db" where
  "completeBooking clock s i =
     (case booking_findById s i of
        None \<Rightarrow> (Inl (NotFoundError ''Booking not found''), s)
      | Some booking \<Rightarrow>
          if status booking \<noteq> ACTIVE
          then (Inl (ValidationError ''Only active bookings can be completed''), s)
          else bookingRepository_updateStatus clock s i COMPLETED)"

definition deleteBooking :: "db \<Rightarrow> objectId \<Rightarrow> (error + unit) \<times> db" where
  "deleteBooking s i =
     (case booking_findById s i of
        None \<Rightarrow> (Inl (NotFoundError ''Booking not found''), s)
      | Some booking \<Rightarrow>
          if status booking \<noteq> PENDING \<and> status booking \<noteq> CANCELLED
          then (Inl (ValidationError
                  ''Only pending or cancelled bookings can be deleted. Cancel the booking first.''), s)
          else bookingRepository_deleteById s i)"

section \<open>PaymentService: the webhook handlers and the refund\<close>

definition payment_findById :: "db \<Rightarrow> objectId \<Rightarrow> IPayment option" where
  "payment_findById s i = find (\<lambda>p. p_id p = i) (payments s)"

definition findByStripePaymentIntentId :: "db \<Rightarrow> string \<Rightarrow> IPayment option" where
  "findByStripePaymentIntentId s k = find (\<lambda>p. stripePaymentIntentId p = k) (payments s)"

definition paymentRepository_updateStatus ::
  "db \<Rightarrow> objectId \<Rightarrow> PaymentStatus \<Rightarrow> (error + IPayment) \<times> db" where
  "paymentRepository_updateStatus s i st =
     (case payment_findById s i of
        None \<Rightarrow> (Inl (NotFoundError ''Payment not found''), s)
      | Some p \<Rightarrow>
          (let p' = p\<lparr>p_status := st\<rparr>
           in (Inr p', s\<lparr>payments := update_first (\<lambda>x. p_id x = i) (\<lambda>_. p') (payments s)\<rparr>)))"

definition setRefund :: "date \<Rightarrow> db \<Rightarrow> objectId \<Rightarrow> real \<Rightarrow> (error + IPayment) \<times> db" where
  "setRefund clock s i r =
     (case payment_findById s i of
        None \<Rightarrow> (Inl (NotFoundError ''Payment not found''), s)
      | Some p \<Rightarrow>
          (let p' = p\<lparr>p_status := REFUNDED, refundAmount := Some r, refundDate := Some clock\<rparr>
           in (Inr p', s\<lparr>payments := update_first (\<lambda>x. p_id x = i) (\<lambda>_. p') (payments s)\<rparr>)))"

definition handlePaymentSuccess :: "date \<Rightarrow> db \<Rightarrow> string \<Rightarrow> (error + unit) \<times> db" where
  "handlePaymentSuccess clock s paymentIntentId =
     (case findByStripePaymentIntentId s paymentIntentId of
        None \<Rightarrow> (Inr (), s)
      | Some payment \<Rightarrow>
          (case paymentRepository_updateStatus s (p_id payment) SUCCEEDED of
             (Inl e, s1) \<Rightarrow> (Inl e, s1)
           | (Inr updatedPayment, s1) \<Rightarrow>
               (case bookingRepository_updateStatus clock s1 (bookingId payment) CONFIRMED of
                  (Inl e, s2) \<Rightarrow> (Inl e, s2)
                | (Inr updatedBooking, s2) \<Rightarrow> (Inr (), s2))))"

definition handlePaymentFailure :: "db \<Rightarrow> string \<Rightarrow> (error + unit) \<times> db" where
  "handlePaymentFailure s paymentIntentId =
     (case findByStripePaymentIntentId s paymentIntentId of
        None \<Rightarrow> (Inr (), s)
      | Some payment \<Rightarrow>
          (case paymentRepository_updateStatus s (p_id payment) FAILED of
             (Inl e, s1) \<Rightarrow> (Inl e, s1)
           | (Inr updatedPayment, s1) \<Rightarrow> (Inr (), s1)))"

text \<open>
  \<open>refundPayment\<close>: \<open>stripe_ok\<close> tells whether \<open>stripe.refunds.create\<close> returns. The
  \<open>try\<close> block turns every error thrown after the two status checks into an
  \<open>ExternalServiceError\<close>; what was written before the error stays written. In
  \<open>amount || payment.amount\<close> an amount of 0 is falsy. The payment is read with
  \<open>findById\<close>, so \<open>String(payment.bookingId)\<close> is \<open>String_populated\<close> of the stored
  reference, in the call of \<open>updateStatus\<close> and in the call of \<open>findById\<close> that follows.
\<close>

definition refundPayment ::
  "date \<Rightarrow> bool \<Rightarrow> db \<Rightarrow> objectId \<Rightarrow> real option \<Rightarrow> (error + IPayment) \<times> db" where
  "refundPayment clock stripe_ok s paymentId amt =
     (case payment_findById s paymentId of
        None \<Rightarrow> (Inl (NotFoundError ''Payment not found''), s)
      | Some payment \<Rightarrow>
          if p_status payment \<noteq> SUCCEEDED \<and> p_status payment \<noteq> REFUNDED
          then (Inl (ValidationError ''Only successful payments can be refunded''), s)
          else if p_status payment = REFUNDED
          then (Inl (ValidationError ''Payment has already been refunded''), s)
          else
            (let r = (case amt of None \<Rightarrow> amount payment
                      | Some a \<Rightarrow> if a = 0 then amount payment else a)
             in if \<not> stripe_ok then (Inl (ExternalServiceError ''Failed to process refund''), s)
                else (case setRefund clock s paymentId r of
                        (Inl e, s1) \<Rightarrow> (Inl (ExternalServiceError ''Failed to process refund''), s1)
                      | (Inr updatedPayment, s1) \<Rightarrow>
                          (let finish = (\<lambda>s2.
                                 case booking_findById_String s2
                                        (String_populated (bookingId payment)) of
                                   Inl e \<Rightarrow>
                                     (Inl (ExternalServiceError ''Failed to process refund''), s2)
                                 | Inr booking \<Rightarrow> (Inr updatedPayment, s2))
                           in if r \<ge> amount payment
                              then (case bookingRepository_updateStatus_String clock s1
                                           (String_populated (bookingId payment)) CANCELLED of
                                      (Inl e, s2) \<Rightarrow>
                                        (Inl (ExternalServiceError ''Failed to process refund''), s2)
                                    | (Inr b, s2) \<Rightarrow> finish s2)
                              else finish s1))))"

section \<open>Example data\<close>

text \<open>
  One piece of equipment at a daily rate of 100, the clock at 2027-06-01T00:00:00Z, and
  a request for the days 7 to 10 from then, as in the scenario walkthrough.
\<close>

definition oven :: IEquipment where
  "oven = \<lparr>e_id = 1, dailyRate = 100, e_status = AVAILABLE\<rparr>"

definition day0 :: date where
  "day0 = 1811808000000"

definition db0 :: db where
  "db0 = \<lparr>bookings = [], equipments = [oven], payments = [], nextId = 10\<rparr>"

definition request1 :: CreateBookingData where
  "request1 = \<lparr>c_customerId = 7, c_equipmentId = 1, c_startDate = day0 + 7 * msPerDay,
     c_endDate = day0 + 10 * msPerDay, c_deliveryAddress = ''123 Test Street'', c_notes = None\<rparr>"

definition booking1 :: IBooking where
  "booking1 = \<lparr>b_id = 10, customerId = 7, equipmentId = 1, startDate = day0 + 7 * msPerDay,
     endDate = day0 + 10 * msPerDay, deliveryAddress = ''123 Test Street'', status = PENDING,
     totalAmount = 300, b_notes = None, createdAt = day0, updatedAt = day0\<rparr>"

definition db1 :: db where
  "db1 = db0\<lparr>bookings := [booking1], nextId := 11\<rparr>"

definition db_active :: db where
  "db_active = db0\<lparr>bookings := [booking1\<lparr>status := ACTIVE\<rparr>], nextId := 11\<rparr>"

text \<open>A patch that carries a status and nothing else.\<close>

definition status_patch :: "BookingStatus \<Rightarrow> UpdateBookingData" where
  "status_patch st = \<lparr>u_startDate = None, u_endDate = None, u_deliveryAddress = None,
     u_notes = None, u_status = Some st, u_totalAmount = None\<rparr>"

text \<open>
  A second request for the same equipment, inside the window of the first; a payment
  for the first booking; and the collections with that payment while the booking is
  pending, cancelled and completed.
\<close>

definition request2 :: CreateBookingData where
  "request2 = \<lparr>c_customerId = 8, c_equipmentId = 1, c_startDate = day0 + 8 * msPerDay,
     c_endDate = day0 + 9 * msPerDay, c_deliveryAddress = ''456 Another Street'', c_notes = None\<rparr>"

definition booking2 :: IBooking where
  "booking2 = \<lparr>b_id = 11, customerId = 8, equipmentId = 1, startDate = day0 + 8 * msPerDay,
     endDate = day0 + 9 * msPerDay, deliveryAddress = ''456 Another Street'', status = PENDING,
     totalAmount = 100, b_notes = None, createdAt = day0, updatedAt = day0\<rparr>"

definition db2 :: db where
  "db2 = db0\<lparr>bookings := [booking1, booking2], nextId := 12\<rparr>"

definition payment1 :: IPayment where
  "payment1 = \<lparr>p_id = 20, bookingId = 10, stripePaymentIntentId = ''pi_1'', amount = 300,
     p_status = PAY_PENDING, refundAmount = None, refundDate = None\<rparr>"

definition db_paying :: db where
  "db_paying = db1\<lparr>payments := [payment1]\<rparr>"

definition db_cancelled :: db where
  "db_cancelled = db0\<lparr>bookings := [booking1\<lparr>status := CANCELLED\<rparr>],
     payments := [payment1], nextId := 11\<rparr>"

definition db_completed :: db where
  "db_completed = db0\<lparr>bookings := [booking1\<lparr>status := COMPLETED\<rparr>],
     payments := [payment1\<lparr>p_status := SUCCEEDED\<rparr>], nextId := 11\<rparr>"

section \<open>Lemmas on the collections\<close>

lemma find_update_first:
  "find q xs = Some x \<Longrightarrow> q y \<Longrightarrow> find q (update_first q (\<lambda>_. y) xs) = Some y"
  by (induction xs) auto

lemma find_Some_q: "find q xs = Some x \<Longrightarrow> q x"
  by (induction xs) (auto split: if_splits)

lemma findById_id: "booking_findById s i = Some b \<Longrightarrow> b_id b = i"
  unfolding booking_findById_def by (drule find_Some_q) simp

lemma updateStatus_found:
  assumes "booking_findById s i = Some b"
  shows "bookingRepository_updateStatus clock s i st =
           (Inr (b\<lparr>status := st, updatedAt := clock\<rparr>),
            s\<lparr>bookings := update_first (\<lambda>x. b_id x = i)
                  (\<lambda>_. b\<lparr>status := st, updatedAt := clock\<rparr>) (bookings s)\<rparr>)"
  using assms by (simp add: bookingRepository_updateStatus_def Let_def)

lemma findById_after_update:
  assumes "booking_findById s i = Some b" and "b_id b' = i"
  shows "booking_findById
           (s\<lparr>bookings := update_first (\<lambda>x. b_id x = i) (\<lambda>_. b') (bookings s)\<rparr>) i = Some b'"
  using assms unfolding booking_findById_def
  by (simp add: find_update_first)

lemma checkConflict_iff:
  "checkConflict s eq sd ed ex \<longleftrightarrow> (\<exists>b\<in>set (bookings s). conflict_query eq sd ed ex b)"
  unfolding checkConflict_def countDocuments_def
  by (auto simp: filter_empty_conv)

lemma conflict_clauses_overlap:
  assumes "sd \<le> ed" and "startDate b \<le> endDate b"
  shows "conflict_clauses sd ed b \<longleftrightarrow> sd \<le> endDate b \<and> startDate b \<le> ed"
  using assms unfolding conflict_clauses_def by auto

lemma ceiling_days_less_1: "\<lceil>real_of_int x / (1000 * 60 * 60 * 24)\<rceil> < 1 \<longleftrightarrow> x \<le> 0"
  by (simp add: ceiling_less_iff)

section \<open>Conflict detection\<close>

text \<open>
  C6, as the code has it. Dates are compared as time values, with their time of day.
  For a candidate window \<open>[sd, ed]\<close> with \<open>sd \<le> ed\<close> and stored windows with
  \<open>startDate \<le> endDate\<close>, the three clauses of the query of \<open>checkConflict\<close> hold of a
  stored booking exactly when the two windows overlap with inclusive boundaries;
  \<open>checkConflict\<close> is true exactly when a booking of the equipment in status pending,
  confirmed or active overlaps the candidate in this sense; and a stored booking of that
  kind that ends at the instant where the candidate starts, or starts at the instant
  where the candidate ends, makes \<open>checkConflict\<close> true.
\<close>

theorem checkConflict_inclusive_overlap:
  assumes "sd \<le> ed" and "\<forall>b\<in>set (bookings s). startDate b \<le> endDate b"
  shows "(\<forall>b\<in>set (bookings s).
            conflict_clauses sd ed b \<longleftrightarrow> sd \<le> endDate b \<and> startDate b \<le> ed) \<and>
         (checkConflict s eq sd ed None \<longleftrightarrow>
            (\<exists>b\<in>set (bookings s). equipmentId b = eq \<and>
                status b \<in> {PENDING, CONFIRMED, ACTIVE} \<and>
                sd \<le> endDate b \<and> startDate b \<le> ed)) \<and>
         (\<forall>b\<in>set (bookings s). equipmentId b = eq \<and>
                status b \<in> {PENDING, CONFIRMED, ACTIVE} \<and>
                (endDate b = sd \<or> startDate b = ed) \<longrightarrow> checkConflict s eq sd ed None)"
proof -
  have a: "\<forall>b\<in>set (bookings s).
             conflict_clauses sd ed b \<longleftrightarrow> sd \<le> endDate b \<and> startDate b \<le> ed"
    using assms conflict_clauses_overlap by blast
  have b: "checkConflict s eq sd ed None \<longleftrightarrow>
            (\<exists>b\<in>set (bookings s). equipmentId b = eq \<and>
                status b \<in> {PENDING, CONFIRMED, ACTIVE} \<and>
                sd \<le> endDate b \<and> startDate b \<le> ed)"
    unfolding checkConflict_iff conflict_query_def using a by auto
  have c: "\<forall>b\<in>set (bookings s). equipmentId b = eq \<and>
                status b \<in> {PENDING, CONFIRMED, ACTIVE} \<and>
                (endDate b = sd \<or> startDate b = ed) \<longrightarrow> checkConflict s eq sd ed None"
  proof (intro ballI impI)
    fix x assume x: "x \<in> set (bookings s)"
      and h: "equipmentId x = eq \<and> status x \<in> {PENDING, CONFIRMED, ACTIVE} \<and>
                (endDate x = sd \<or> startDate x = ed)"
    from assms x have "startDate x \<le> endDate x" by blast
    with h assms(1) have "sd \<le> endDate x \<and> startDate x \<le> ed" by auto
    with x h show "checkConflict s eq sd ed None" unfolding b by blast
  qed
  from a b c show ?thesis by blast
qed

text \<open>
  The stored booking of days 7 to 10 conflicts with a request that starts on its last
  boundary, and with one that ends on its first.
\<close>

theorem checkConflict_inclusive_overlap_witness:
  "checkConflict db1 1 (day0 + 10 * msPerDay) (day0 + 12 * msPerDay) None \<and>
   checkConflict db1 1 (day0 + 5 * msPerDay) (day0 + 7 * msPerDay) None \<and>
   \<not> checkConflict db1 1 (day0 + 11 * msPerDay) (day0 + 12 * msPerDay) None"
proof -
  have v: "\<forall>b\<in>set (bookings db1). startDate b \<le> endDate b"
    by (simp add: db1_def db0_def booking1_def msPerDay_def)
  have m: "booking1 \<in> set (bookings db1)"
    by (simp add: db1_def db0_def)
  have k: "equipmentId booking1 = 1 \<and> status booking1 \<in> {PENDING, CONFIRMED, ACTIVE}"
    by (simp add: booking1_def)
  have e: "endDate booking1 = day0 + 10 * msPerDay" "startDate booking1 = day0 + 7 * msPerDay"
    by (simp_all add: booking1_def)
  have w1: "day0 + 10 * msPerDay \<le> day0 + 12 * msPerDay" by (simp add: msPerDay_def)
  have w2: "day0 + 5 * msPerDay \<le> day0 + 7 * msPerDay" by (simp add: msPerDay_def)
  have w3: "day0 + 11 * msPerDay \<le> day0 + 12 * msPerDay" by (simp add: msPerDay_def)
  have c1: "checkConflict db1 1 (day0 + 10 * msPerDay) (day0 + 12 * msPerDay) None"
    using checkConflict_inclusive_overlap [OF w1 v, of 1] m k e by blast
  have c2: "checkConflict db1 1 (day0 + 5 * msPerDay) (day0 + 7 * msPerDay) None"
    using checkConflict_inclusive_overlap [OF w2 v, of 1] m k e by blast
  have c3: "\<not> checkConflict db1 1 (day0 + 11 * msPerDay) (day0 + 12 * msPerDay) None"
    using checkConflict_inclusive_overlap [OF w3 v, of 1]
    by (simp add: db1_def db0_def booking1_def msPerDay_def)
  from c1 c2 c3 show ?thesis by blast
qed

text \<open>
  The claim as written fails for two windows that meet on a day at different times: the
  stored booking ends on 2027-06-11 at 00:00, the request starts on 2027-06-11 at 08:00
  and ends two days later, and there is no conflict.
\<close>

theorem same_day_boundary_counterexample:
  "equipmentId booking1 = 1 \<and> status booking1 = PENDING \<and>
   startDate booking1 < endDate booking1 \<and>
   day0 + 10 * msPerDay + 8 * (1000 * 60 * 60) < day0 + 12 * msPerDay \<and>
   Day (endDate booking1) = Day (day0 + 10 * msPerDay + 8 * (1000 * 60 * 60)) \<and>
   \<not> checkConflict db1 1 (day0 + 10 * msPerDay + 8 * (1000 * 60 * 60)) (day0 + 12 * msPerDay) None"
  by code_simp

section \<open>Pricing\<close>

text \<open>
  C7. For equipment that exists, with daily rate \<open>r\<close>, \<open>calculateTotalAmount\<close> is a
  function of the rate and the two dates: with \<open>days\<close> the ceiling of the length of the
  window in days, it throws the validation error when \<open>days < 1\<close> (that is, when the end
  is not after the start) and returns \<open>r * days\<close> otherwise; a rate of 100 over three
  days gives 300. The product is taken in the real numbers.
\<close>

theorem calculateTotalAmount_spec:
  assumes "equipment_findById s eq = Some q"
  shows "calculateTotalAmount s eq sd ed =
           (if \<lceil>real_of_int (ed - sd) / real_of_int msPerDay\<rceil> < 1
            then Inl (ValidationError ''Booking must be at least 1 day'')
            else Inr (dailyRate q *
                   real_of_int \<lceil>real_of_int (ed - sd) / real_of_int msPerDay\<rceil>)) \<and>
         ((\<exists>m. calculateTotalAmount s eq sd ed = Inl (ValidationError m)) \<longleftrightarrow>
            \<lceil>real_of_int (ed - sd) / real_of_int msPerDay\<rceil> < 1) \<and>
         (\<lceil>real_of_int (ed - sd) / real_of_int msPerDay\<rceil> < 1 \<longleftrightarrow> ed \<le> sd) \<and>
         (dailyRate q = 100 \<and> ed = sd + 3 * msPerDay \<longrightarrow>
            calculateTotalAmount s eq sd ed = Inr 300)"
  using assms ceiling_days_less_1 [of "ed - sd"]
  by (auto simp: calculateTotalAmount_def msPerDay_def Let_def)

theorem calculateTotalAmount_spec_witness:
  "equipment_findById db0 1 = Some oven \<and>
   calculateTotalAmount db0 1 day0 (day0 + 3 * msPerDay) = Inr 300 \<and>
   calculateTotalAmount db0 1 day0 (day0 + 1) = Inr 100 \<and>
   calculateTotalAmount db0 1 day0 day0 = Inl (ValidationError ''Booking must be at least 1 day'')"
proof -
  have a: "equipment_findById db0 1 = Some oven" by code_simp
  have c: "dailyRate oven = 100" by (simp add: oven_def)
  from calculateTotalAmount_spec [OF a, of day0 "day0 + 3 * msPerDay"] c
  have t3: "calculateTotalAmount db0 1 day0 (day0 + 3 * msPerDay) = Inr 300" by blast
  from calculateTotalAmount_spec [OF a, of day0 "day0 + 1"] c
  have t1: "calculateTotalAmount db0 1 day0 (day0 + 1) = Inr 100"
    by (simp add: msPerDay_def ceiling_eq_iff)
  from calculateTotalAmount_spec [OF a, of day0 day0]
  have t0: "calculateTotalAmount db0 1 day0 day0 =
              Inl (ValidationError ''Booking must be at least 1 day'')"
    by (simp add: msPerDay_def)
  from a t3 t1 t0 show ?thesis by blast
qed

section \<open>Creation\<close>

text \<open>
  C9. Whatever error \<open>createBooking\<close> returns, the collections are as they were; when it
  succeeds, the bookings are the old ones followed by the one returned, whose status is
  pending, and nothing else changes.
\<close>

theorem createBooking_all_or_nothing:
  "(\<forall>e s'. createBooking clock s data = (Inl e, s') \<longrightarrow> s' = s) \<and>
   (\<forall>b s'. createBooking clock s data = (Inr b, s') \<longrightarrow>
      bookings s' = bookings s @ [b] \<and> status b = PENDING \<and>
      equipments s' = equipments s \<and> payments s' = payments s)"
  unfolding createBooking_def bookingRepository_create_def Let_def
  by (auto split: sum.splits if_splits)

theorem createBooking_all_or_nothing_witness:
  "createBooking day0 db0 request1 = (Inr booking1, db1) \<and>
   bookings db1 = bookings db0 @ [booking1] \<and> status booking1 = PENDING \<and>
   createBooking day0 db1 request1 =
     (Inl (ConflictError ''Equipment is already booked for the selected dates''), db1)"
proof -
  have r: "createBooking day0 db0 request1 = (Inr booking1, db1)" by code_simp
  with createBooking_all_or_nothing [of day0 db0 request1]
  have p: "bookings db1 = bookings db0 @ [booking1] \<and> status booking1 = PENDING" by blast
  have e: "fst (createBooking day0 db1 request1) =
             Inl (ConflictError ''Equipment is already booked for the selected dates'')"
    by code_simp
  with createBooking_all_or_nothing [of day0 db1 request1]
  have "createBooking day0 db1 request1 =
     (Inl (ConflictError ''Equipment is already booked for the selected dates''), db1)"
    by (metis prod.collapse)
  with r p show ?thesis by blast
qed

section \<open>Cancellation\<close>

lemma hours_lt_24: "real_of_int x / (1000 * 60 * 60) < 24 \<longleftrightarrow> x < 24 * (1000 * 60 * 60)"
  by (simp add: divide_less_eq)

lemma String_populated_not_id: "String_populated ref \<noteq> IdText i"
  by (simp add: String_populated_def)

lemma ObjectId_of_populated: "ObjectId_of (String_populated ref) = None"
  by (simp add: String_populated_def ObjectId_of_def)

lemma cancelBooking_not_admin:
  assumes "booking_findById s i = Some b" and "userRole \<noteq> ADMIN"
  shows "cancelBooking clock s i userId userRole =
           (Inl (AuthorizationError ''You can only cancel your own bookings''), s)"
  using assms by (simp add: cancelBooking_def String_populated_not_id)

lemma cancelBooking_admin:
  assumes "booking_findById s i = Some b"
    and "status b \<noteq> COMPLETED" and "status b \<noteq> CANCELLED"
  shows "\<exists>b' s'. cancelBooking clock s i userId ADMIN = (Inr b', s') \<and>
           status b' = CANCELLED \<and> booking_findById s' i = Some b'"
proof -
  let ?b' = "b\<lparr>status := CANCELLED, updatedAt := clock\<rparr>"
  let ?s' = "s\<lparr>bookings := update_first (\<lambda>x. b_id x = i) (\<lambda>_. ?b') (bookings s)\<rparr>"
  from assms(1) have id: "b_id ?b' = i" by (auto dest: findById_id)
  from assms have "cancelBooking clock s i userId ADMIN = (Inr ?b', ?s')"
    by (simp add: cancelBooking_def updateStatus_found Let_def)
  moreover have "booking_findById ?s' i = Some ?b'"
    using assms(1) id findById_after_update by blast
  ultimately show ?thesis by simp
qed

text \<open>
  C3, as the code has it. \<open>cancelBooking\<close> rejects the statuses completed and cancelled
  and no other: it succeeds only from pending, confirmed or active, and then the
  booking is cancelled. A completed or cancelled booking is refused with a validation
  error for an admin. An active booking is not refused for its state: an admin cancels
  it at any time.
\<close>

theorem cancelBooking_status_guard:
  "(\<forall>b' s'. cancelBooking clock s i userId userRole = (Inr b', s') \<longrightarrow>
      (\<exists>b. booking_findById s i = Some b \<and> status b \<in> {PENDING, CONFIRMED, ACTIVE}) \<and>
      status b' = CANCELLED) \<and>
   (\<forall>b. booking_findById s i = Some b \<and> status b \<in> {COMPLETED, CANCELLED} \<longrightarrow>
      (\<exists>m. cancelBooking clock s i userId ADMIN = (Inl (ValidationError m), s))) \<and>
   (\<forall>b. booking_findById s i = Some b \<and> status b = ACTIVE \<longrightarrow>
      (\<exists>b' s'. cancelBooking clock s i userId ADMIN = (Inr b', s') \<and>
         status b' = CANCELLED \<and> booking_findById s' i = Some b'))"
proof (intro conjI allI impI)
  fix b' s' assume h: "cancelBooking clock s i userId userRole = (Inr b', s')"
  then obtain b where b: "booking_findById s i = Some b"
    by (auto simp: cancelBooking_def split: option.splits)
  from h b have st: "status b \<noteq> COMPLETED" "status b \<noteq> CANCELLED"
    by (auto simp: cancelBooking_def split: if_splits)
  then have "status b \<in> {PENDING, CONFIRMED, ACTIVE}" by (cases "status b") auto
  with b show "\<exists>b. booking_findById s i = Some b \<and> status b \<in> {PENDING, CONFIRMED, ACTIVE}"
    by blast
  from h b show "status b' = CANCELLED"
    by (auto simp: cancelBooking_def updateStatus_found Let_def split: if_splits)
next
  fix b assume "booking_findById s i = Some b \<and> status b \<in> {COMPLETED, CANCELLED}"
  then show "\<exists>m. cancelBooking clock s i userId ADMIN = (Inl (ValidationError m), s)"
    by (auto simp: cancelBooking_def)
next
  fix b assume h: "booking_findById s i = Some b \<and> status b = ACTIVE"
  then show "\<exists>b' s'. cancelBooking clock s i userId ADMIN = (Inr b', s') \<and>
         status b' = CANCELLED \<and> booking_findById s' i = Some b'"
    using cancelBooking_admin [of s i b clock userId] by simp
qed

theorem cancelBooking_status_guard_witness:
  "map_option status (booking_findById db_active 10) = Some ACTIVE \<and>
   (\<exists>b' s'. cancelBooking (day0 + 8 * msPerDay) db_active 10 99 ADMIN = (Inr b', s') \<and>
      status b' = CANCELLED \<and> booking_findById s' 10 = Some b') \<and>
   map_option status (booking_findById db_cancelled 10) = Some CANCELLED \<and>
   (\<exists>m. cancelBooking (day0 + 8 * msPerDay) db_cancelled 10 99 ADMIN =
      (Inl (ValidationError m), db_cancelled))"
proof -
  have a: "booking_findById db_active 10 = Some (booking1\<lparr>status := ACTIVE\<rparr>)" by code_simp
  have b: "status (booking1\<lparr>status := ACTIVE\<rparr>) = ACTIVE" by simp
  have c: "booking_findById db_cancelled 10 = Some (booking1\<lparr>status := CANCELLED\<rparr>)"
    by code_simp
  have d: "status (booking1\<lparr>status := CANCELLED\<rparr>) \<in> {COMPLETED, CANCELLED}" by simp
  from cancelBooking_status_guard [of "day0 + 8 * msPerDay" db_active 10 99 ADMIN] a b
  have x: "\<exists>b' s'. cancelBooking (day0 + 8 * msPerDay) db_active 10 99 ADMIN = (Inr b', s') \<and>
      status b' = CANCELLED \<and> booking_findById s' 10 = Some b'"
    by blast
  from cancelBooking_status_guard [of "day0 + 8 * msPerDay" db_cancelled 10 99 ADMIN] c d
  have y: "\<exists>m. cancelBooking (day0 + 8 * msPerDay) db_cancelled 10 99 ADMIN =
      (Inl (ValidationError m), db_cancelled)"
    by blast
  from a c x y show ?thesis by simp
qed

text \<open>
  The claim as written fails: an admin cancels an active booking on day 8, during the
  rental.
\<close>

theorem cancel_active_counterexample:
  "map_option status (booking_findById db_active 10) = Some ACTIVE \<and>
   map_sum id status (fst (cancelBooking (day0 + 8 * msPerDay) db_active 10 99 ADMIN)) = Inr CANCELLED"
  by code_simp

text \<open>
  C4, as the code has it. For a booking that is neither completed nor cancelled and
  starts in less than 24 hours: an admin cancels it; the request of a caller whose role
  is not admin fails and changes nothing; and a logistics user who is not the owner is
  refused with the authorization error, since only the role admin is exempt from the
  ownership check and from the policy.
\<close>

theorem cancelBooking_24h_gate:
  assumes "booking_findById s i = Some b"
    and "status b \<noteq> COMPLETED" and "status b \<noteq> CANCELLED"
    and "startDate b - clock < 24 * (1000 * 60 * 60)"
  shows "(\<exists>b' s'. cancelBooking clock s i userId ADMIN = (Inr b', s') \<and>
            status b' = CANCELLED \<and> booking_findById s' i = Some b') \<and>
         (userRole \<noteq> ADMIN \<longrightarrow>
            (\<exists>e. cancelBooking clock s i userId userRole = (Inl e, s))) \<and>
         (customerId b \<noteq> userId \<longrightarrow>
            cancelBooking clock s i userId LOGISTICS =
              (Inl (AuthorizationError ''You can only cancel your own bookings''), s))"
proof (intro conjI impI)
  show "\<exists>b' s'. cancelBooking clock s i userId ADMIN = (Inr b', s') \<and>
            status b' = CANCELLED \<and> booking_findById s' i = Some b'"
    using assms(1,2,3) by (rule cancelBooking_admin)
next
  assume "userRole \<noteq> ADMIN"
  with assms(1) show "\<exists>e. cancelBooking clock s i userId userRole = (Inl e, s)"
    using cancelBooking_not_admin by blast
next
  assume "customerId b \<noteq> userId"
  from assms(1) show "cancelBooking clock s i userId LOGISTICS =
              (Inl (AuthorizationError ''You can only cancel your own bookings''), s)"
    by (rule cancelBooking_not_admin) simp
qed

theorem cancelBooking_24h_gate_witness:
  "(\<exists>b' s'. cancelBooking (day0 + 7 * msPerDay - 3600000) db1 10 99 ADMIN = (Inr b', s') \<and>
      status b' = CANCELLED \<and> booking_findById s' 10 = Some b') \<and>
   (\<exists>e. cancelBooking (day0 + 7 * msPerDay - 3600000) db1 10 7 CUSTOMER = (Inl e, db1)) \<and>
   cancelBooking (day0 + 7 * msPerDay - 3600000) db1 10 55 LOGISTICS =
     (Inl (AuthorizationError ''You can only cancel your own bookings''), db1)"
proof -
  have a: "booking_findById db1 10 = Some booking1" by code_simp
  have b: "status booking1 \<noteq> COMPLETED" "status booking1 \<noteq> CANCELLED"
    by (simp_all add: booking1_def)
  have c: "startDate booking1 - (day0 + 7 * msPerDay - 3600000) < 24 * (1000 * 60 * 60)"
    by (simp add: booking1_def)
  have r: "CUSTOMER \<noteq> ADMIN" by simp
  have o: "customerId booking1 \<noteq> 55" by (simp add: booking1_def)
  from cancelBooking_24h_gate [OF a b c, of 99 CUSTOMER]
  have x: "\<exists>b' s'. cancelBooking (day0 + 7 * msPerDay - 3600000) db1 10 99 ADMIN = (Inr b', s') \<and>
      status b' = CANCELLED \<and> booking_findById s' 10 = Some b'"
    by blast
  from cancelBooking_24h_gate [OF a b c, of 7 CUSTOMER] r
  have y: "\<exists>e. cancelBooking (day0 + 7 * msPerDay - 3600000) db1 10 7 CUSTOMER = (Inl e, db1)"
    by blast
  from cancelBooking_24h_gate [OF a b c, of 55 CUSTOMER] o
  have z: "cancelBooking (day0 + 7 * msPerDay - 3600000) db1 10 55 LOGISTICS =
     (Inl (AuthorizationError ''You can only cancel your own bookings''), db1)"
    by blast
  from x y z show ?thesis by blast
qed

text \<open>
  The claim as written fails for the role logistics: one hour before the start, a
  logistics user who does not own the booking is refused.
\<close>

theorem cancel_logistics_counterexample:
  "map_option status (booking_findById db1 10) = Some PENDING \<and>
   cancelBooking (day0 + 7 * msPerDay - 3600000) db1 10 55 LOGISTICS =
     (Inl (AuthorizationError ''You can only cancel your own bookings''), db1)"
  by code_simp

section \<open>Update\<close>

lemma updateById_Inr:
  assumes "bookingRepository_updateById clock s i data = (Inr b', s')"
  shows "\<exists>b. booking_findById s i = Some b \<and> b' = set_fields clock data b \<and>
           s' = s\<lparr>bookings := update_first (\<lambda>x. b_id x = i) (\<lambda>_. b') (bookings s)\<rparr>"
  using assms
  by (auto simp: bookingRepository_updateById_def Let_def split: if_splits option.splits)

lemma updateBooking_Inr:
  assumes "updateBooking clock s i data userId userRole = (Inr b', s')"
  shows "\<exists>b. booking_findById s i = Some b \<and> b' = set_fields clock data b \<and>
           s' = s\<lparr>bookings := update_first (\<lambda>x. b_id x = i) (\<lambda>_. b') (bookings s)\<rparr>"
proof -
  from assms obtain b where b: "booking_findById s i = Some b"
    by (auto simp: updateBooking_def split: option.splits)
  from assms b have "bookingRepository_updateById clock s i data = (Inr b', s')"
    by (auto simp: updateBooking_def Let_def checkConflict_String_def ObjectId_of_populated
          split: if_splits sum.splits)
  then show ?thesis using b by (auto dest!: updateById_Inr)
qed

text \<open>
  For a booking that is neither completed nor cancelled, an admin or a logistics user
  and a patch with a status: every update that succeeds stores the status of the patch,
  whatever the current status; and a patch without dates, without an amount and without
  an empty address does succeed.
\<close>

lemma updateBooking_status_stored:
  assumes "booking_findById s i = Some b"
    and "status b \<noteq> COMPLETED" and "status b \<noteq> CANCELLED"
    and "userRole = ADMIN \<or> userRole = LOGISTICS"
    and "u_status data = Some st"
  shows "(\<forall>b' s'. updateBooking clock s i data userId userRole = (Inr b', s') \<longrightarrow>
            status b' = st \<and> booking_findById s' i = Some b') \<and>
         (u_startDate data = None \<and> u_endDate data = None \<and>
          u_deliveryAddress data \<noteq> Some [] \<and> u_totalAmount data = None \<longrightarrow>
            (\<exists>b' s'. updateBooking clock s i data userId userRole = (Inr b', s') \<and>
               status b' = st \<and> booking_findById s' i = Some b'))"
proof -
  have A: "status b' = st \<and> booking_findById s' i = Some b'"
    if h: "updateBooking clock s i data userId userRole = (Inr b', s')" for b' s'
  proof -
    from updateBooking_Inr [OF h] assms(1) have
      c: "b' = set_fields clock data b"
      and s': "s' = s\<lparr>bookings := update_first (\<lambda>x. b_id x = i) (\<lambda>_. b') (bookings s)\<rparr>"
      by auto
    from c assms(5) have st: "status b' = st" by (auto simp: set_fields_def)
    from c assms(1) have "b_id b' = i" by (auto simp: set_fields_def dest: findById_id)
    with assms(1) s' have "booking_findById s' i = Some b'"
      using findById_after_update by blast
    with st show ?thesis by simp
  qed
  have B: "\<exists>b' s'. updateBooking clock s i data userId userRole = (Inr b', s')"
    if n: "u_startDate data = None \<and> u_endDate data = None \<and>
          u_deliveryAddress data \<noteq> Some [] \<and> u_totalAmount data = None"
  proof -
    have v: "update_valid clock data"
      using n by (auto simp: update_valid_def split: option.splits)
    from assms n v show ?thesis
      by (auto simp: updateBooking_def bookingRepository_updateById_def Let_def)
  qed
  from A B show ?thesis by blast
qed

lemma updateBooking_status_stored_example:
  "map_option status (booking_findById db1 10) = Some PENDING \<and>
   map_sum id status (fst (updateBooking day0 db1 10 (status_patch ACTIVE) 55 LOGISTICS)) = Inr ACTIVE \<and>
   map_sum id status (fst (updateBooking day0 db1 10 (status_patch COMPLETED) 99 ADMIN)) = Inr COMPLETED"
  by code_simp

text \<open>
  An update that carries a date never succeeds: after the window validation,
  \<open>checkConflict\<close> receives the text of the populated equipment and throws.
\<close>

lemma updateBooking_dates_fail:
  assumes "u_startDate data \<noteq> None \<or> u_endDate data \<noteq> None"
  shows "\<exists>e. updateBooking clock s i data userId userRole = (Inl e, s)"
  using assms
  by (auto simp: updateBooking_def Let_def checkConflict_String_def ObjectId_of_populated
        split: option.splits sum.splits)

text \<open>
  C10 does not hold of the owner: \<open>updateBooking\<close> compares the text of the populated
  customer with the id of the caller, which never agree, so the owning customer who
  sends a patch with the status active for the pending booking is refused and the
  booking stays as it is.
\<close>

theorem updateBooking_owner_refused:
  "map_option customerId (booking_findById db1 10) = Some 7 \<and>
   map_option status (booking_findById db1 10) = Some PENDING \<and>
   updateBooking day0 db1 10 (status_patch ACTIVE) 7 CUSTOMER =
     (Inl (AuthorizationError ''You can only update your own bookings''), db1) \<and>
   updateBooking day0 db1 10 (status_patch COMPLETED) 7 CUSTOMER =
     (Inl (AuthorizationError ''You can only update your own bookings''), db1)"
  by code_simp

theorem updateBooking_owner_refused_witness:
  "fst (updateBooking day0 db1 10 (status_patch ACTIVE) 7 CUSTOMER) =
     Inl (AuthorizationError ''You can only update your own bookings'') \<and>
   snd (updateBooking day0 db1 10 (status_patch ACTIVE) 7 CUSTOMER) = db1"
  using updateBooking_owner_refused by simp

section \<open>Window validation\<close>

lemma div_step:
  fixes a n :: int
  assumes "0 < n"
  shows "(a + 1) div n = a div n + (if (a + 1) mod n = 0 then 1 else 0)"
proof -
  define q where "q = a div n"
  define r where "r = a mod n"
  have a: "a = n * q + r" by (simp add: q_def r_def)
  have r: "0 \<le> r" "r < n" using assms by (simp_all add: r_def)
  show ?thesis
  proof (cases "r + 1 < n")
    case True
    have e: "a + 1 = n * q + (r + 1)" using a by simp
    have le: "0 \<le> r + 1" using r by simp
    have "(a + 1) div n = q" using int_div_pos_eq [OF e le True] .
    moreover have "(a + 1) mod n = r + 1" using int_mod_pos_eq [OF e le True] .
    ultimately show ?thesis using r by (simp add: q_def)
  next
    case False
    with r have n: "r + 1 = n" by simp
    have e: "a + 1 = n * (q + 1) + 0" using a n by (simp add: algebra_simps)
    have "(a + 1) div n = q + 1" using int_div_pos_eq [OF e] assms by simp
    moreover have "(a + 1) mod n = 0" using int_mod_pos_eq [OF e] assms by simp
    ultimately show ?thesis by (simp add: q_def)
  qed
qed

lemma mod_shift:
  fixes y n k :: int
  shows "(y - n * k) mod n = y mod n"
  using mod_mult_self2 [of y n "- k"] by simp

lemma div_step_year:
  fixes y c n k :: int
  assumes "0 < n" and "c - 1 = n * k"
  shows "(y + 1 - c) div n = (y - c) div n + (if y mod n = 0 then 1 else 0)"
proof -
  have m: "y - c + 1 = y - n * k" using assms(2) by simp
  have mm: "(y - c + 1) mod n = y mod n" by (simp only: m mod_shift)
  from div_step [OF assms(1), of "y - c"]
  have "(y - c + 1) div n = (y - c) div n + (if y mod n = 0 then 1 else 0)"
    by (simp only: mm)
  moreover have "y + 1 - c = y - c + 1" by simp
  ultimately show ?thesis by (simp only:)
qed

lemma mod_0_trans:
  fixes y a b :: int
  assumes "a dvd b" and "y mod b = 0"
  shows "y mod a = 0"
proof -
  from assms(2) have "b dvd y" by (simp add: dvd_eq_mod_eq_0)
  with assms(1) have "a dvd y" by (rule dvd_trans)
  then show ?thesis by (simp add: dvd_eq_mod_eq_0)
qed

lemma days_in_year: "DayFromYear (y + 1) - DayFromYear y = DaysInYear y"
proof -
  have d4: "(y + 1 - 1969) div 4 = (y - 1969) div 4 + (if y mod 4 = 0 then 1 else 0)"
    by (rule div_step_year [where k = 492]) simp_all
  have d100: "(y + 1 - 1901) div 100 = (y - 1901) div 100 + (if y mod 100 = 0 then 1 else 0)"
    by (rule div_step_year [where k = 19]) simp_all
  have d400: "(y + 1 - 1601) div 400 = (y - 1601) div 400 + (if y mod 400 = 0 then 1 else 0)"
    by (rule div_step_year [where k = 4]) simp_all
  have i1: "y mod 100 = 0 \<Longrightarrow> y mod 4 = 0" by (rule mod_0_trans [of 4 100]) simp_all
  have i2: "y mod 400 = 0 \<Longrightarrow> y mod 100 = 0" by (rule mod_0_trans [of 100 400]) simp_all
  have "DayFromYear (y + 1) - DayFromYear y =
          365 + (if y mod 4 = 0 then 1 else 0) - (if y mod 100 = 0 then 1 else 0) +
          (if y mod 400 = 0 then 1 else 0)"
    unfolding DayFromYear_def d4 d100 d400 by simp
  also have "\<dots> = DaysInYear y"
    using i1 i2 by (simp add: DaysInYear_def)
  finally show ?thesis .
qed


lemma DaysInYear_leap: "DaysInYear y = 365 + InLeapYear y"
  by (simp add: InLeapYear_def DaysInYear_def)

lemma DaysInYear_cases: "DaysInYear y = 365 \<or> DaysInYear y = 366"
  by (simp add: DaysInYear_def)

lemma month_range: "0 \<le> MonthFromTime t \<and> MonthFromTime t \<le> 11"
  by (simp add: MonthFromTime_def Let_def)

lemma MonthStart_diff:
  "0 \<le> m \<Longrightarrow> m \<le> 11 \<Longrightarrow> MonthStart a m - MonthStart b m = (if m \<le> 1 then 0 else a - b)"
  by (simp add: MonthStart_def)

lemma MakeDay_unfold:
  "0 \<le> m \<Longrightarrow> m \<le> 11 \<Longrightarrow> MakeDay y m dt = DayFromYear y + MonthStart (InLeapYear y) m + dt - 1"
  by (simp add: MakeDay_def Let_def)

lemma MakeDay_next_year:
  "MakeDay (getFullYear t + 1) (MonthFromTime t) (DateFromTime t) = Day t + daysToNextYear t"
proof -
  let ?Y = "YearFromTime t"
  let ?m = "MonthFromTime t"
  have r: "0 \<le> ?m" "?m \<le> 11" using month_range by auto
  have md: "MonthStart (InLeapYear (?Y + 1)) ?m - MonthStart (InLeapYear ?Y) ?m =
          (if ?m \<le> 1 then 0 else InLeapYear (?Y + 1) - InLeapYear ?Y)"
    using MonthStart_diff [OF r] .
  have dy: "DayFromYear (?Y + 1) = DayFromYear ?Y + DaysInYear ?Y"
    using days_in_year [of ?Y] by simp
  have "MakeDay (?Y + 1) ?m (DateFromTime t) =
          DayFromYear (?Y + 1) + MonthStart (InLeapYear (?Y + 1)) ?m + DateFromTime t - 1"
    using r by (rule MakeDay_unfold)
  also have "\<dots> = Day t + DaysInYear ?Y +
      (MonthStart (InLeapYear (?Y + 1)) ?m - MonthStart (InLeapYear ?Y) ?m)"
    unfolding dy DateFromTime_def DayWithinYear_def by simp
  also have "\<dots> = Day t + daysToNextYear t"
    unfolding md daysToNextYear_def getFullYear_def
    by (simp add: DaysInYear_leap)
  finally show ?thesis by (simp only: getFullYear_def)
qed


lemma msPerDay_pos: "0 < msPerDay" by (simp add: msPerDay_def)

lemma Day_add_days: "Day (t + n * msPerDay) = Day t + n"
  using msPerDay_pos by (simp add: Day_def)

lemma setFullYear_next_year:
  "setFullYear t (getFullYear t + 1) = t + daysToNextYear t * msPerDay"
proof -
  have "setFullYear t (getFullYear t + 1) = (Day t + daysToNextYear t) * msPerDay + t mod msPerDay"
    by (simp only: setFullYear_def MakeDay_next_year MakeDate_def TimeWithinDay_def)
  also have "\<dots> = (t div msPerDay) * msPerDay + t mod msPerDay + daysToNextYear t * msPerDay"
    by (simp add: Day_def algebra_simps)
  also have "\<dots> = t + daysToNextYear t * msPerDay"
    by simp
  finally show ?thesis .
qed

lemma setHours0_less: "setHours0 a < setHours0 b \<longleftrightarrow> Day a < Day b"
  using msPerDay_pos by (simp add: setHours0_def MakeDate_def)

lemma setHours0_le: "setHours0 a \<le> setHours0 b \<longleftrightarrow> Day a \<le> Day b"
  using msPerDay_pos by (simp add: setHours0_def MakeDate_def)

lemma less_mult_iff_div_less:
  fixes t k m :: int
  assumes "0 < m"
  shows "t < k * m \<longleftrightarrow> t div m < k"
proof
  assume h: "t < k * m"
  show "t div m < k"
  proof (rule ccontr)
    assume "\<not> t div m < k"
    then have "k \<le> t div m" by simp
    then have "k * m \<le> (t div m) * m" using assms by (simp add: mult_right_mono)
    also have "\<dots> \<le> t"
    proof -
      have "t = (t div m) * m + t mod m" by simp
      moreover have "0 \<le> t mod m" using assms by simp
      ultimately show ?thesis by linarith
    qed
    finally show False using h by simp
  qed
next
  assume h: "t div m < k"
  then have "t div m + 1 \<le> k" by simp
  then have "(t div m + 1) * m \<le> k * m" using assms by (simp add: mult_right_mono)
  moreover have "t < (t div m + 1) * m"
  proof -
    have a: "(t div m) * m + t mod m = t" by simp
    have b: "t mod m < m" using assms by simp
    have c: "(t div m + 1) * m = (t div m) * m + m" by (simp add: distrib_right)
    from a b c show ?thesis by linarith
  qed
  ultimately show "t < k * m" by linarith
qed

lemma setHours0_greater: "setHours0 a > t \<longleftrightarrow> Day a > Day t"
  using less_mult_iff_div_less [OF msPerDay_pos, of t "Day a"]
  by (simp add: setHours0_def MakeDate_def Day_def)

text \<open>
  The calendar functions are those of the Gregorian calendar: \<open>YearFromDay\<close> finds the
  year that contains the day, the day within the year lies in that year, the day of the
  month lies between 1 and 31, and \<open>MakeDay\<close> of the year, month and day of the month
  of a date is the day of the date.
\<close>

lemma div_bounds:
  fixes x n :: int
  assumes "0 < n"
  shows "n * (x div n) \<le> x \<and> x \<le> n * (x div n) + (n - 1)"
proof -
  have "n * (x div n) + x mod n = x" by simp
  moreover have "0 \<le> x mod n" "x mod n < n" using assms by simp_all
  ultimately show ?thesis by linarith
qed

lemma DayFromYear_bounds:
  "146097 * (y - 1970) - 506 \<le> 400 * DayFromYear y \<and>
   400 * DayFromYear y \<le> 146097 * (y - 1970) + 589"
proof -
  define a where "a = (y - 1969) div 4"
  define b where "b = (y - 1901) div 100"
  define c where "c = (y - 1601) div 400"
  have a: "4 * a \<le> y - 1969 \<and> y - 1969 \<le> 4 * a + 3"
    unfolding a_def using div_bounds [of 4 "y - 1969"] by simp
  have b: "100 * b \<le> y - 1901 \<and> y - 1901 \<le> 100 * b + 99"
    unfolding b_def using div_bounds [of 100 "y - 1901"] by simp
  have c: "400 * c \<le> y - 1601 \<and> y - 1601 \<le> 400 * c + 399"
    unfolding c_def using div_bounds [of 400 "y - 1601"] by simp
  have d: "DayFromYear y = 365 * (y - 1970) + a - b + c"
    by (simp only: DayFromYear_def a_def b_def c_def)
  have "146097 * (y - 1970) - 506 \<le> 400 * (365 * (y - 1970) + a - b + c)"
    using a b c by (simp add: ring_distribs)
  moreover have "400 * (365 * (y - 1970) + a - b + c) \<le> 146097 * (y - 1970) + 589"
    using a b c by (simp add: ring_distribs)
  ultimately show ?thesis by (simp only: d)
qed

lemma YearFromDay_correct:
  "DayFromYear (YearFromDay d) \<le> d \<and> d < DayFromYear (YearFromDay d + 1)"
proof -
  define k where "k = (400 * d) div 146097"
  define y where "y = 1970 + k"
  have k: "146097 * k \<le> 400 * d \<and> 400 * d \<le> 146097 * k + 146096"
    unfolding k_def using div_bounds [of 146097 "400 * d"] by simp
  have lo: "DayFromYear (y - 1) \<le> d"
    using DayFromYear_bounds [of "y - 1"] k unfolding y_def by (simp add: ring_distribs)
  have hi: "d < DayFromYear (y + 2)"
    using DayFromYear_bounds [of "y + 2"] k unfolding y_def by (simp add: ring_distribs)
  have e: "YearFromDay d =
             (if DayFromYear (y + 1) \<le> d then y + 1 else if d < DayFromYear y then y - 1 else y)"
    by (simp only: YearFromDay_def Let_def y_def k_def)
  show ?thesis
  proof (cases "DayFromYear (y + 1) \<le> d")
    case True
    with e have "YearFromDay d = y + 1" by simp
    with True hi show ?thesis by (simp add: add.commute add.left_commute)
  next
    case False
    show ?thesis
    proof (cases "d < DayFromYear y")
      case True
      with e False have "YearFromDay d = y - 1" by simp
      with True lo show ?thesis by simp
    next
      case f: False
      with e False have "YearFromDay d = y" by simp
      with False f show ?thesis by simp
    qed
  qed
qed

lemma DayWithinYear_range: "0 \<le> DayWithinYear t \<and> DayWithinYear t < DaysInYear (YearFromTime t)"
  using YearFromDay_correct [of "Day t"] days_in_year [of "YearFromTime t"]
  by (simp add: DayWithinYear_def YearFromTime_def)


lemma MakeDay_roundtrip:
  "MakeDay (YearFromTime t) (MonthFromTime t) (DateFromTime t) = Day t"
proof -
  have r: "0 \<le> MonthFromTime t" "MonthFromTime t \<le> 11" using month_range by auto
  have "MakeDay (YearFromTime t) (MonthFromTime t) (DateFromTime t) =
          DayFromYear (YearFromTime t) + MonthStart (InLeapYear (YearFromTime t)) (MonthFromTime t) +
          DateFromTime t - 1"
    using r by (rule MakeDay_unfold)
  also have "\<dots> = Day t"
    by (simp add: DateFromTime_def DayWithinYear_def)
  finally show ?thesis .
qed

lemma InLeapYear_cases: "InLeapYear y = 0 \<or> InLeapYear y = 1"
  by (simp add: InLeapYear_def)

lemma DateFromTime_range: "1 \<le> DateFromTime t \<and> DateFromTime t \<le> 31"
proof -
  define d where "d = DayWithinYear t"
  define l where "l = InLeapYear (YearFromTime t)"
  have d: "0 \<le> d" "d < 365 + l"
    using DayWithinYear_range [of t] by (simp_all add: d_def l_def DaysInYear_leap)
  have l: "l = 0 \<or> l = 1" unfolding l_def by (rule InLeapYear_cases)
  have "DateFromTime t =
     d - MonthStart l
      (if d < 31 then 0
         else if d < 59 + l then 1
         else if d < 90 + l then 2
         else if d < 120 + l then 3
         else if d < 151 + l then 4
         else if d < 181 + l then 5
         else if d < 212 + l then 6
         else if d < 243 + l then 7
         else if d < 273 + l then 8
         else if d < 304 + l then 9
         else if d < 334 + l then 10
         else 11) + 1"
    by (simp only: DateFromTime_def MonthFromTime_def Let_def d_def l_def)
  with d l show ?thesis
    by (auto simp: MonthStart_def)
qed

text \<open>
  C8, as the code has it. \<open>validateBookingDates\<close> compares the start with the clock
  moved on by one calendar year (\<open>setFullYear\<close>), not by 365 days. It throws the
  too-far-in-future error exactly when the start day is not before today, the end day
  is after the start day, and the start day is more than \<open>daysToNextYear\<close> days after
  today; that number is 365, or 366 when a February 29 lies in the year ahead.
\<close>

theorem validateBookingDates_too_far:
  "(validateBookingDates clock sd ed =
      Inl (ValidationError ''Start date cannot be more than 1 year in the future'') \<longleftrightarrow>
    Day clock \<le> Day sd \<and> Day sd < Day ed \<and> Day sd > Day clock + daysToNextYear clock) \<and>
   (daysToNextYear clock = 365 \<or> daysToNextYear clock = 366)"
proof -
  have g: "setHours0 sd > setFullYear clock (getFullYear clock + 1) \<longleftrightarrow>
        Day sd > Day clock + daysToNextYear clock"
    by (simp only: setHours0_greater setFullYear_next_year Day_add_days)
  have l: "setHours0 sd < setHours0 clock \<longleftrightarrow> \<not> Day clock \<le> Day sd"
    using setHours0_less [of sd clock] by auto
  have e: "setHours0 ed \<le> setHours0 sd \<longleftrightarrow> \<not> Day sd < Day ed"
    using setHours0_le [of ed sd] by auto
  have "validateBookingDates clock sd ed =
      Inl (ValidationError ''Start date cannot be more than 1 year in the future'') \<longleftrightarrow>
    Day clock \<le> Day sd \<and> Day sd < Day ed \<and> Day sd > Day clock + daysToNextYear clock"
    unfolding validateBookingDates_def Let_def g l e
    by simp
  moreover have "daysToNextYear clock = 365 \<or> daysToNextYear clock = 366"
    unfolding daysToNextYear_def using DaysInYear_cases by auto
  ultimately show ?thesis by blast
qed

theorem validateBookingDates_too_far_witness:
  "daysToNextYear day0 = 366 \<and>
   validateBookingDates day0 (day0 + 367 * msPerDay) (day0 + 368 * msPerDay) =
     Inl (ValidationError ''Start date cannot be more than 1 year in the future'') \<and>
   validateBookingDates day0 (day0 + 366 * msPerDay) (day0 + 368 * msPerDay) \<noteq>
     Inl (ValidationError ''Start date cannot be more than 1 year in the future'')"
proof -
  have n: "daysToNextYear day0 = 366" by code_simp
  have d: "Day day0 = 20970" "Day (day0 + 366 * msPerDay) = 21336"
    "Day (day0 + 367 * msPerDay) = 21337" "Day (day0 + 368 * msPerDay) = 21338"
    by (simp_all add: Day_def day0_def msPerDay_def)
  from validateBookingDates_too_far [of day0 "day0 + 367 * msPerDay" "day0 + 368 * msPerDay"]
  have a: "validateBookingDates day0 (day0 + 367 * msPerDay) (day0 + 368 * msPerDay) =
     Inl (ValidationError ''Start date cannot be more than 1 year in the future'')"
    by (simp add: n d)
  from validateBookingDates_too_far [of day0 "day0 + 366 * msPerDay" "day0 + 368 * msPerDay"]
  have b: "validateBookingDates day0 (day0 + 366 * msPerDay) (day0 + 368 * msPerDay) \<noteq>
     Inl (ValidationError ''Start date cannot be more than 1 year in the future'')"
    by (simp add: n d)
  from n a b show ?thesis by blast
qed

text \<open>
  The claim as written fails across a leap day. The clock is at 2027-06-01 and the
  start at 2028-06-01, which is 366 days later, more than 365 days after today; the
  window is accepted.
\<close>

theorem too_far_leap_year_counterexample:
  "YearFromTime day0 = 2027 \<and> MonthFromTime day0 = 5 \<and> DateFromTime day0 = 1 \<and>
   YearFromTime (day0 + 366 * msPerDay) = 2028 \<and> MonthFromTime (day0 + 366 * msPerDay) = 5 \<and>
   DateFromTime (day0 + 366 * msPerDay) = 1 \<and>
   setHours0 (day0 + 366 * msPerDay) > setHours0 day0 + 365 * msPerDay \<and>
   validateBookingDates day0 (day0 + 366 * msPerDay) (day0 + 368 * msPerDay) = Inr ()"
  by code_simp

section \<open>Two requests for the same equipment\<close>

lemma Day_mono: "a \<le> b \<Longrightarrow> Day a \<le> Day b"
  using msPerDay_pos by (simp add: Day_def zdiv_mono1)

lemma validateBookingDates_Inr:
  assumes "validateBookingDates clock sd ed = Inr ()"
  shows "sd < ed"
proof -
  from assms have "\<not> setHours0 ed \<le> setHours0 sd"
    by (auto simp: validateBookingDates_def Let_def split: if_splits)
  then have "Day sd < Day ed" by (simp add: setHours0_le)
  then show ?thesis using Day_mono [of ed sd] by (cases "sd < ed") auto
qed

lemma createBooking_Inr:
  assumes "createBooking clock s data = (Inr b, s')"
  shows "bookings s' = bookings s @ [b] \<and> equipments s' = equipments s \<and> status b = PENDING \<and>
         equipmentId b = c_equipmentId data \<and> startDate b = c_startDate data \<and>
         endDate b = c_endDate data \<and> startDate b < endDate b \<and>
         (\<exists>q. equipment_findById s (c_equipmentId data) = Some q \<and> e_status q = AVAILABLE)"
  using assms
  unfolding createBooking_def bookingRepository_create_def createBooking_checks_def Let_def
    document_valid_def endDate_validator_def
  by (auto split: sum.splits if_splits option.splits)

text \<open>
  C1, as the code has it. The conflict check and the write are separate awaited calls
  with nothing that makes them one unit. When a request for the same equipment and an
  overlapping window starts after another has been persisted, it fails: with a
  validation error of its own window, or else with the conflict error; the collections
  stay as the first request left them.
\<close>

theorem createBooking_sequential_no_double_booking:
  assumes "createBooking clock1 s data1 = (Inr b1, s1)"
    and "c_equipmentId data2 = c_equipmentId data1"
    and "c_startDate data2 \<le> c_endDate data1"
    and "c_startDate data1 \<le> c_endDate data2"
  shows "(\<exists>m. createBooking clock2 s1 data2 = (Inl (ValidationError m), s1)) \<or>
         createBooking clock2 s1 data2 =
           (Inl (ConflictError ''Equipment is already booked for the selected dates''), s1)"
proof (cases "validateBookingDates clock2 (c_startDate data2) (c_endDate data2)")
  case (Inl e)
  then obtain m where "e = ValidationError m"
    by (auto simp: validateBookingDates_def Let_def split: if_splits)
  with Inl show ?thesis
    by (simp add: createBooking_def createBooking_checks_def)
next
  case (Inr u)
  then have v: "validateBookingDates clock2 (c_startDate data2) (c_endDate data2) = Inr ()" by simp
  then have w: "c_startDate data2 \<le> c_endDate data2" using validateBookingDates_Inr by fastforce
  from createBooking_Inr [OF assms(1)] obtain q where
    b: "bookings s1 = bookings s @ [b1]" "status b1 = PENDING"
       "equipmentId b1 = c_equipmentId data1" "startDate b1 = c_startDate data1"
       "endDate b1 = c_endDate data1" "startDate b1 < endDate b1"
    and q: "equipment_findById s1 (c_equipmentId data1) = Some q" "e_status q = AVAILABLE"
    by (auto simp: equipment_findById_def)
  have "conflict_clauses (c_startDate data2) (c_endDate data2) b1"
    using conflict_clauses_overlap [OF w, of b1] b assms by simp
  then have "conflict_query (c_equipmentId data2) (c_startDate data2) (c_endDate data2) None b1"
    using b assms(2) by (simp add: conflict_query_def)
  then have "checkConflict s1 (c_equipmentId data2) (c_startDate data2) (c_endDate data2) None"
    unfolding checkConflict_iff using b(1) by auto
  with v q assms(2) show ?thesis
    by (simp add: createBooking_def createBooking_checks_def)
qed

theorem createBooking_sequential_no_double_booking_witness:
  "createBooking day0 db0 request1 = (Inr booking1, db1) \<and>
   createBooking day0 db1 request2 =
     (Inl (ConflictError ''Equipment is already booked for the selected dates''), db1)"
proof -
  have r: "createBooking day0 db0 request1 = (Inr booking1, db1)" by code_simp
  have e: "c_equipmentId request2 = c_equipmentId request1"
    by (simp add: request1_def request2_def)
  have o: "c_startDate request2 \<le> c_endDate request1" "c_startDate request1 \<le> c_endDate request2"
    by (simp_all add: request1_def request2_def msPerDay_def)
  have c: "fst (createBooking day0 db1 request2) =
             Inl (ConflictError ''Equipment is already booked for the selected dates'')"
    by code_simp
  from createBooking_sequential_no_double_booking [OF r e o, of day0] c
  have "createBooking day0 db1 request2 =
     (Inl (ConflictError ''Equipment is already booked for the selected dates''), db1)"
    by auto
  with r show ?thesis by blast
qed

text \<open>
  The claim as written fails: when both requests have read the collections before
  either writes, both are persisted, one window inside the other.
\<close>

theorem interleaved_double_booking_counterexample:
  "createBooking_interleaved day0 db0 request1 request2 = (Inr booking1, Inr booking2, db2) \<and>
   equipmentId booking1 = equipmentId booking2 \<and>
   startDate booking1 \<le> startDate booking2 \<and> endDate booking2 \<le> endDate booking1 \<and>
   bookings db2 = [booking1, booking2]"
  by code_simp

section \<open>Terminal bookings\<close>

text \<open>
  The operations of \<open>BookingService\<close> on a completed or cancelled booking are refused
  and leave the collections as they are.
\<close>

lemma booking_operations_refuse_terminal:
  assumes "booking_findById s i = Some b" and "status b = COMPLETED \<or> status b = CANCELLED"
  shows "(\<exists>e. updateBooking clock s i data userId userRole = (Inl e, s)) \<and>
         (\<exists>e. cancelBooking clock s i userId userRole = (Inl e, s)) \<and>
         (\<exists>e. confirmBooking clock s i = (Inl e, s)) \<and>
         (\<exists>e. startBooking clock s i = (Inl e, s)) \<and>
         (\<exists>e. completeBooking clock s i = (Inl e, s))"
  using assms
  by (auto simp: updateBooking_def cancelBooking_def confirmBooking_def startBooking_def
        completeBooking_def)

text \<open>
  \<open>refundPayment\<close> never changes a booking: it passes the text of the populated
  booking to \<open>bookingRepository\<close>, which throws, so a refund that reaches the payment
  gateway ends with the payment marked refunded and an \<open>ExternalServiceError\<close>.
\<close>

lemma setRefund_bookings: "bookings (snd (setRefund clock s i r)) = bookings s"
  by (simp add: setRefund_def Let_def split: option.splits)

lemma refundPayment_keeps_bookings:
  "bookings (snd (refundPayment clock stripe_ok s paymentId amt)) = bookings s \<and>
   (\<exists>e. fst (refundPayment clock stripe_ok s paymentId amt) = Inl e)"
proof -
  have k: "bookings s1 = bookings s" if "setRefund clock s paymentId r = (x, s1)" for r x s1
    using setRefund_bookings [of clock s paymentId r] that by simp
  show ?thesis
    unfolding refundPayment_def Let_def bookingRepository_updateStatus_String_def
      booking_findById_String_def ObjectId_of_populated
    by (auto split: option.splits prod.splits sum.splits dest: k)
qed

text \<open>
  C2 does not hold of the payment-success handler, which writes the status of a booking
  without reading it. An admin cancels the pending booking while its payment is
  pending; the payment-success event that arrives afterwards returns without error and
  the cancelled booking is confirmed. The same event delivered again for the payment of
  a completed booking moves the booking back to confirmed.
\<close>

theorem payment_success_changes_terminal_booking:
  "map_sum id status (fst (cancelBooking day0 db_paying 10 99 ADMIN)) = Inr CANCELLED \<and>
   fst (handlePaymentSuccess (day0 + 1000)
          (snd (cancelBooking day0 db_paying 10 99 ADMIN)) ''pi_1'') = Inr () \<and>
   map_option status (booking_findById
      (snd (handlePaymentSuccess (day0 + 1000)
              (snd (cancelBooking day0 db_paying 10 99 ADMIN)) ''pi_1'')) 10)
     = Some CONFIRMED \<and>
   map_option status (booking_findById db_completed 10) = Some COMPLETED \<and>
   fst (handlePaymentSuccess (day0 + 1000) db_completed ''pi_1'') = Inr () \<and>
   map_option status
     (booking_findById (snd (handlePaymentSuccess (day0 + 1000) db_completed ''pi_1'')) 10)
     = Some CONFIRMED"
  by code_simp

text \<open>
  C5 does not hold: the payment-success event for a booking that is already cancelled
  returns without error, and the booking is then confirmed.
\<close>

theorem handlePaymentSuccess_on_cancelled:
  "map_option status (booking_findById db_cancelled 10) = Some CANCELLED \<and>
   fst (handlePaymentSuccess (day0 + 1000) db_cancelled ''pi_1'') = Inr () \<and>
   map_option status
     (booking_findById (snd (handlePaymentSuccess (day0 + 1000) db_cancelled ''pi_1'')) 10)
     = Some CONFIRMED \<and>
   map_option p_status
     (payment_findById (snd (handlePaymentSuccess (day0 + 1000) db_cancelled ''pi_1'')) 20)
     = Some SUCCEEDED"
  by code_simp

end
